theory Spec2Isabelle
  imports Main
begin

section \<open>The Liquid Glass launcher (main.py)\<close>

text \<open>
  The launcher is a straight line of calls into the GUI toolkit with two early returns.
  The toolkit, the file system and the standard streams are not part of the launcher, so
  they appear in two places: what the launcher reads from them is a field of the
  environment \<open>env\<close>, and what the launcher does to them is a field of the process state
  \<open>world\<close>, which every call takes and returns. The process state also keeps the order
  of the calls in \<open>trace\<close>, one event per call, so that "before" and "after" are
  statements about a list.

  The launcher has no \<^verbatim>\<open>raise\<close> and no \<^verbatim>\<open>try\<close>: its two failures are
  return values, and an exception raised by a call it makes leaves \<open>main\<close>. The call
  that stands between a detected failure and \<^verbatim>\<open>return 1\<close> is \<^verbatim>\<open>print\<close>, which
  raises when the standard output stream refuses the text; the process state says which
  texts the stream refuses. The calls made before a failure is known (the toolkit's
  constructors and setters, \<^verbatim>\<open>resolve()\<close>, \<^verbatim>\<open>exists()\<close>) are taken to return.
  The one call that blocks, the event loop, may never come back: its result is an
  \<open>int option\<close> (\<open>None\<close>: no return). The result of \<open>main\<close> is therefore
  \<open>Inl e\<close> when the exception \<open>e\<close> leaves it, \<open>Inr (Some c)\<close> when it returns
  \<open>c\<close>, and \<open>Inr None\<close> when it never returns.
\<close>

subsection \<open>Paths (the pathlib operations the launcher uses)\<close>

text \<open>
  A path is an anchor (\<open>''/''\<close> for an absolute POSIX path, empty for a relative one)
  and the segments below it. \<^verbatim>\<open>.parent\<close> drops the last segment and is the path
  itself when there is none. \<^verbatim>\<open>p / s\<close> is modelled for a single relative segment
  \<open>s\<close>, which is what the three literals of the launcher are. \<^verbatim>\<open>str\<close> joins
  the segments with the separator; the empty relative path prints as a dot.
\<close>

record path =
  anchor :: string
  parts :: "string list"

definition parent :: "path \<Rightarrow> path" where
  "parent p = p\<lparr>parts := butlast (parts p)\<rparr>"

definition joinpath :: "path \<Rightarrow> string \<Rightarrow> path" where
  "joinpath p s = p\<lparr>parts := parts p @ [s]\<rparr>"

fun join_segments :: "string list \<Rightarrow> string" where
  "join_segments [] = []"
| "join_segments [s] = s"
| "join_segments (s # t # ss) = s @ ''/'' @ join_segments (t # ss)"

definition path_str :: "path \<Rightarrow> string" where
  "path_str p =
     (if anchor p = [] \<and> parts p = [] then ''.''
      else anchor p @ join_segments (parts p))"

subsection \<open>Toolkit values\<close>

datatype application_attribute = AA_ShareOpenGLContexts

datatype opengl_profile = NoProfile | CoreProfile | CompatibilityProfile

record surface_format =
  majorVersion :: int
  minorVersion :: int
  profile :: opengl_profile
  samples :: int
  swapInterval :: int

text \<open>\<^verbatim>\<open>QSurfaceFormat()\<close>: the toolkit's default-constructed format.\<close>

definition QSurfaceFormat_new :: surface_format where
  "QSurfaceFormat_new =
     \<lparr>majorVersion = 2, minorVersion = 0, profile = NoProfile,
      samples = - 1, swapInterval = 1\<rparr>"

definition setVersion :: "int \<Rightarrow> int \<Rightarrow> surface_format \<Rightarrow> surface_format" where
  "setVersion major minor fmt = fmt\<lparr>majorVersion := major, minorVersion := minor\<rparr>"

definition setProfile :: "opengl_profile \<Rightarrow> surface_format \<Rightarrow> surface_format" where
  "setProfile p fmt = fmt\<lparr>profile := p\<rparr>"

definition setSamples :: "int \<Rightarrow> surface_format \<Rightarrow> surface_format" where
  "setSamples n fmt = fmt\<lparr>samples := n\<rparr>"

definition setSwapInterval :: "int \<Rightarrow> surface_format \<Rightarrow> surface_format" where
  "setSwapInterval n fmt = fmt\<lparr>swapInterval := n\<rparr>"

datatype qurl = LocalFile string

definition QUrl_fromLocalFile :: "string \<Rightarrow> qurl" where
  "QUrl_fromLocalFile s = LocalFile s"

type_synonym qobject = nat

record gui_application =
  app_argv :: "string list"
  applicationName :: string
  organizationName :: string
  organizationDomain :: string

record qml_application_engine =
  importPaths :: "string list"
  rootObjects :: "qobject list"

subsection \<open>Environment and process state\<close>

text \<open>
  What the launcher reads, and what the toolkit reads on its behalf:
  \<^verbatim>\<open>sys.argv\<close>; \<^verbatim>\<open>Path(__file__)\<close>; what \<^verbatim>\<open>resolve()\<close> and
  \<^verbatim>\<open>exists()\<close> answer on this file system; the import paths a new engine starts
  with (those of the toolkit's installation); the canonical path of a directory as the
  toolkit computes it, \<open>None\<close> for a directory that does not exist; the root objects
  the engine creates in this run when asked to load a URL; the lines the toolkit logs on
  standard error during that load (its warnings about a component it could not load);
  and what the event loop returns, if it returns.
\<close>

record env =
  sys_argv :: "string list"
  launcher_file :: path
  fs_resolve :: "path \<Rightarrow> path"
  fs_exists :: "path \<Rightarrow> bool"
  default_import_paths :: "string list"
  canonical_dir :: "string \<Rightarrow> string option"
  qml_load :: "qurl \<Rightarrow> qobject list"
  qml_warnings :: "qurl \<Rightarrow> string list"
  exec_result :: "int option"

datatype python_exception = UnicodeEncodeError | OSError

datatype event =
    SetAttribute application_attribute
  | SetDefaultFormat surface_format
  | NewApplication "string list"
  | SetApplicationName string
  | SetOrganizationName string
  | SetOrganizationDomain string
  | NewEngine
  | AddImportPath string
  | Load qurl
  | Print string
  | Exec

text \<open>
  \<open>stdout\<close> and \<open>stderr\<close> hold one entry per line written: \<^verbatim>\<open>print\<close> writes its
  text and the line terminator. \<open>stdout_fault\<close> is the state of the standard output
  stream: the exception that writing a text to it raises, \<open>None\<close> for a text it takes.
\<close>

record world =
  attributes :: "application_attribute set"
  defaultFormat :: surface_format
  application :: "gui_application option"
  engine :: "qml_application_engine option"
  stdout :: "string list"
  stderr :: "string list"
  stdout_fault :: "string \<Rightarrow> python_exception option"
  trace :: "event list"

text \<open>
  The state of a process that has not called the toolkit yet and whose standard output
  takes every text, and the same process with another standard output.
\<close>

definition world0 :: world where
  "world0 =
     \<lparr>attributes = {}, defaultFormat = QSurfaceFormat_new, application = None,
      engine = None, stdout = [], stderr = [], stdout_fault = (\<lambda>s. None), trace = []\<rparr>"

definition world_with :: "(string \<Rightarrow> python_exception option) \<Rightarrow> world" where
  "world_with f = world0\<lparr>stdout_fault := f\<rparr>"

definition log_event :: "event \<Rightarrow> world \<Rightarrow> world" where
  "log_event e w = w\<lparr>trace := trace w @ [e]\<rparr>"

subsection \<open>Toolkit calls\<close>

definition QCoreApplication_setAttribute :: "application_attribute \<Rightarrow> world \<Rightarrow> world" where
  "QCoreApplication_setAttribute a w =
     log_event (SetAttribute a) (w\<lparr>attributes := insert a (attributes w)\<rparr>)"

definition QSurfaceFormat_setDefaultFormat :: "surface_format \<Rightarrow> world \<Rightarrow> world" where
  "QSurfaceFormat_setDefaultFormat fmt w =
     log_event (SetDefaultFormat fmt) (w\<lparr>defaultFormat := fmt\<rparr>)"

text \<open>
  \<^verbatim>\<open>QGuiApplication(sys.argv)\<close>: the application object, its identity fields not
  yet assigned by the launcher. The setters act on the object once it exists.
\<close>

definition QGuiApplication_new :: "string list \<Rightarrow> world \<Rightarrow> world" where
  "QGuiApplication_new args w =
     log_event (NewApplication args)
       (w\<lparr>application := Some \<lparr>app_argv = args, applicationName = [],
            organizationName = [], organizationDomain = []\<rparr>\<rparr>)"

definition setApplicationName :: "string \<Rightarrow> world \<Rightarrow> world" where
  "setApplicationName s w =
     log_event (SetApplicationName s)
       (w\<lparr>application := map_option (\<lambda>a. a\<lparr>applicationName := s\<rparr>) (application w)\<rparr>)"

definition setOrganizationName :: "string \<Rightarrow> world \<Rightarrow> world" where
  "setOrganizationName s w =
     log_event (SetOrganizationName s)
       (w\<lparr>application := map_option (\<lambda>a. a\<lparr>organizationName := s\<rparr>) (application w)\<rparr>)"

definition setOrganizationDomain :: "string \<Rightarrow> world \<Rightarrow> world" where
  "setOrganizationDomain s w =
     log_event (SetOrganizationDomain s)
       (w\<lparr>application := map_option (\<lambda>a. a\<lparr>organizationDomain := s\<rparr>) (application w)\<rparr>)"

text \<open>
  \<^verbatim>\<open>QQmlApplicationEngine()\<close>: a new engine has loaded nothing and already holds
  the import paths of the toolkit's installation.
\<close>

definition QQmlApplicationEngine_new :: "env \<Rightarrow> world \<Rightarrow> world" where
  "QQmlApplicationEngine_new ev w =
     log_event NewEngine
       (w\<lparr>engine := Some \<lparr>importPaths = default_import_paths ev, rootObjects = []\<rparr>\<rparr>)"

text \<open>
  \<^verbatim>\<open>engine.addImportPath(path)\<close>, as the toolkit does it for a local directory: an
  empty path is ignored; the path is made canonical; a directory that does not exist has
  no canonical path and is dropped; a canonical path already in the list moves to its
  front, a new one is put in front. The event of the trace keeps the text the launcher
  passed.
\<close>

definition add_import_path :: "env \<Rightarrow> string \<Rightarrow> string list \<Rightarrow> string list" where
  "add_import_path ev p ps =
     (if p = [] then ps
      else case canonical_dir ev p of
             None \<Rightarrow> ps
           | Some c \<Rightarrow> c # remove1 c ps)"

definition addImportPath :: "env \<Rightarrow> string \<Rightarrow> world \<Rightarrow> world" where
  "addImportPath ev p w =
     log_event (AddImportPath p)
       (w\<lparr>engine := map_option
            (\<lambda>e. e\<lparr>importPaths := add_import_path ev p (importPaths e)\<rparr>) (engine w)\<rparr>)"

text \<open>
  \<^verbatim>\<open>engine.load(url)\<close>: the engine keeps the root objects it creates, and the
  toolkit writes its own warnings about the load on standard error.
\<close>

definition engine_load :: "env \<Rightarrow> qurl \<Rightarrow> world \<Rightarrow> world" where
  "engine_load ev url w =
     log_event (Load url)
       (w\<lparr>engine := map_option
            (\<lambda>e. e\<lparr>rootObjects := rootObjects e @ qml_load ev url\<rparr>) (engine w),
          stderr := stderr w @ qml_warnings ev url\<rparr>)"

definition engine_rootObjects :: "world \<Rightarrow> qobject list" where
  "engine_rootObjects w = (case engine w of None \<Rightarrow> [] | Some e \<Rightarrow> rootObjects e)"

text \<open>
  \<^verbatim>\<open>print(text)\<close> writes one line on standard output, or raises what the stream
  raises and writes nothing.
\<close>

definition print :: "string \<Rightarrow> world \<Rightarrow> python_exception + world" where
  "print s w =
     (case stdout_fault w s of
        Some e \<Rightarrow> Inl e
      | None \<Rightarrow> Inr (log_event (Print s) (w\<lparr>stdout := stdout w @ [s]\<rparr>)))"

definition app_exec :: "env \<Rightarrow> world \<Rightarrow> int option \<times> world" where
  "app_exec ev w = (exec_result ev, log_event Exec w)"

subsection \<open>The launcher\<close>

definition setup_opengl :: "world \<Rightarrow> world" where
  "setup_opengl w =
     (let fmt = QSurfaceFormat_new;
          fmt = setVersion 3 3 fmt;
          fmt = setProfile CoreProfile fmt;
          fmt = setSamples 4 fmt;
          fmt = setSwapInterval 1 fmt
      in QSurfaceFormat_setDefaultFormat fmt w)"

definition main :: "env \<Rightarrow> world \<Rightarrow> (python_exception + int option) \<times> world" where
  "main ev w =
     (let w = QCoreApplication_setAttribute AA_ShareOpenGLContexts w;
          w = setup_opengl w;
          w = QGuiApplication_new (sys_argv ev) w;
          w = setApplicationName ''Liquid Glass Demo'' w;
          w = setOrganizationName ''LiquidGlass'' w;
          w = setOrganizationDomain ''liquidglass.demo'' w;
          w = QQmlApplicationEngine_new ev w;
          app_dir = fs_resolve ev (parent (launcher_file ev));
          qml_dir = joinpath app_dir ''qml'';
          components_dir = joinpath qml_dir ''components'';
          w = addImportPath ev (path_str qml_dir) w;
          w = addImportPath ev (path_str components_dir) w;
          main_qml = joinpath qml_dir ''Main.qml''
      in if \<not> fs_exists ev main_qml then
           (case print (''Error: Main.qml not found at '' @ path_str main_qml) w of
              Inl e \<Rightarrow> (Inl e, w)
            | Inr w \<Rightarrow> (Inr (Some 1), w))
         else
           let w = engine_load ev (QUrl_fromLocalFile (path_str main_qml)) w
           in if engine_rootObjects w = [] then
                (case print ''Error: Failed to load QML'' w of
                   Inl e \<Rightarrow> (Inl e, w)
                 | Inr w \<Rightarrow> (Inr (Some 1), w))
              else (case app_exec ev w of (r, w) \<Rightarrow> (Inr r, w)))"

subsection \<open>Names for what the launcher computes\<close>

text \<open>
  The local variables of \<open>main\<close> that the statements below speak about, as functions
  of the environment, and the two failure conditions.
\<close>

definition app_dir :: "env \<Rightarrow> path" where
  "app_dir ev = fs_resolve ev (parent (launcher_file ev))"

definition qml_dir :: "env \<Rightarrow> path" where
  "qml_dir ev = joinpath (app_dir ev) ''qml''"

definition components_dir :: "env \<Rightarrow> path" where
  "components_dir ev = joinpath (qml_dir ev) ''components''"

definition main_qml :: "env \<Rightarrow> path" where
  "main_qml ev = joinpath (qml_dir ev) ''Main.qml''"

definition root_missing :: "env \<Rightarrow> bool" where
  "root_missing ev = (\<not> fs_exists ev (main_qml ev))"

definition load_failed :: "env \<Rightarrow> bool" where
  "load_failed ev =
     (fs_exists ev (main_qml ev) \<and>
      qml_load ev (QUrl_fromLocalFile (path_str (main_qml ev))) = [])"

definition not_found_message :: "env \<Rightarrow> string" where
  "not_found_message ev = ''Error: Main.qml not found at '' @ path_str (main_qml ev)"

definition load_failed_message :: string where
  "load_failed_message = ''Error: Failed to load QML''"

definition requested_format :: surface_format where
  "requested_format =
     \<lparr>majorVersion = 3, minorVersion = 3, profile = CoreProfile,
      samples = 4, swapInterval = 1\<rparr>"

text \<open>\<open>main\<close> has returned, and what it returned is not 0.\<close>

definition nonzero_exit :: "python_exception + int option \<Rightarrow> bool" where
  "nonzero_exit r = (case r of Inr (Some c) \<Rightarrow> c \<noteq> 0 | _ \<Rightarrow> False)"

text \<open>
  What the engine's import path list is once the launcher has made its two
  \<^verbatim>\<open>addImportPath\<close> calls.
\<close>

definition engine_import_paths :: "env \<Rightarrow> string list" where
  "engine_import_paths ev =
     add_import_path ev (path_str (components_dir ev))
       (add_import_path ev (path_str (qml_dir ev)) (default_import_paths ev))"

subsection \<open>Reading a trace\<close>

fun is_new_application :: "event \<Rightarrow> bool" where
  "is_new_application (NewApplication _) = True"
| "is_new_application _ = False"

fun is_identity_setter :: "event \<Rightarrow> bool" where
  "is_identity_setter (SetApplicationName _) = True"
| "is_identity_setter (SetOrganizationName _) = True"
| "is_identity_setter (SetOrganizationDomain _) = True"
| "is_identity_setter _ = False"

fun is_set_default_format :: "event \<Rightarrow> bool" where
  "is_set_default_format (SetDefaultFormat _) = True"
| "is_set_default_format _ = False"

fun is_load :: "event \<Rightarrow> bool" where
  "is_load (Load _) = True"
| "is_load _ = False"

fun is_print :: "event \<Rightarrow> bool" where
  "is_print (Print _) = True"
| "is_print _ = False"

text \<open>The events strictly before the first event that satisfies \<open>Q\<close>.\<close>

definition before_first :: "(event \<Rightarrow> bool) \<Rightarrow> event list \<Rightarrow> event list" where
  "before_first Q tr = takeWhile (\<lambda>e. \<not> Q e) tr"

text \<open>The events strictly after the first event that satisfies \<open>Q\<close>.\<close>

definition after_first :: "(event \<Rightarrow> bool) \<Rightarrow> event list \<Rightarrow> event list" where
  "after_first Q tr = tl (dropWhile (\<lambda>e. \<not> Q e) tr)"

text \<open>The directories registered by the calls of a trace, in the order of the calls.\<close>

fun registered_paths :: "event list \<Rightarrow> string list" where
  "registered_paths [] = []"
| "registered_paths (AddImportPath p # tr) = p # registered_paths tr"
| "registered_paths (_ # tr) = registered_paths tr"

subsection \<open>Sample environments\<close>

text \<open>
  A launcher installed as \<^verbatim>\<open>/opt/demo/main.py\<close> on a file system without links,
  with a toolkit whose new engines start with three import paths, in these situations:
  nothing beside the launcher; the two directories but no \<^verbatim>\<open>Main.qml\<close>; an empty
  \<^verbatim>\<open>Main.qml\<close>, from which the engine creates nothing and about which the toolkit
  logs two lines; a \<^verbatim>\<open>Main.qml\<close> from which it creates a window and whose event
  loop ends with 0; and the same with an event loop that ends with 3. The last sample is
  a launcher in a directory with an accented name and nothing beside it, for a process
  whose standard output encodes ASCII only.
\<close>

definition demo_file :: path where
  "demo_file = \<lparr>anchor = ''/'', parts = [''opt'', ''demo'', ''main.py'']\<rparr>"

definition demo_defaults :: "string list" where
  "demo_defaults = [''/usr/bin'', ''qrc:/qt/qml'', ''/usr/lib/qt6/qml'']"

definition demo_dirs :: "string \<Rightarrow> string option" where
  "demo_dirs s =
     (if s = ''/opt/demo/qml'' \<or> s = ''/opt/demo/qml/components'' then Some s else None)"

definition env_missing :: env where
  "env_missing =
     \<lparr>sys_argv = [''main.py''], launcher_file = demo_file, fs_resolve = (\<lambda>p. p),
      fs_exists = (\<lambda>p. False), default_import_paths = demo_defaults,
      canonical_dir = (\<lambda>s. None), qml_load = (\<lambda>u. []), qml_warnings = (\<lambda>u. []),
      exec_result = Some 0\<rparr>"

definition env_no_main :: env where
  "env_no_main =
     \<lparr>sys_argv = [''main.py''], launcher_file = demo_file, fs_resolve = (\<lambda>p. p),
      fs_exists = (\<lambda>p. False), default_import_paths = demo_defaults,
      canonical_dir = demo_dirs, qml_load = (\<lambda>u. []), qml_warnings = (\<lambda>u. []),
      exec_result = Some 0\<rparr>"

definition env_broken :: env where
  "env_broken =
     \<lparr>sys_argv = [''main.py''], launcher_file = demo_file, fs_resolve = (\<lambda>p. p),
      fs_exists = (\<lambda>p. True), default_import_paths = demo_defaults,
      canonical_dir = demo_dirs, qml_load = (\<lambda>u. []),
      qml_warnings = (\<lambda>u. [''QQmlApplicationEngine failed to load component'',
        ''file:///opt/demo/qml/Main.qml: File is empty'']),
      exec_result = Some 0\<rparr>"

definition env_ok :: env where
  "env_ok =
     \<lparr>sys_argv = [''main.py''], launcher_file = demo_file, fs_resolve = (\<lambda>p. p),
      fs_exists = (\<lambda>p. True), default_import_paths = demo_defaults,
      canonical_dir = demo_dirs, qml_load = (\<lambda>u. [0]), qml_warnings = (\<lambda>u. []),
      exec_result = Some 0\<rparr>"

definition env_exit3 :: env where
  "env_exit3 =
     \<lparr>sys_argv = [''main.py''], launcher_file = demo_file, fs_resolve = (\<lambda>p. p),
      fs_exists = (\<lambda>p. True), default_import_paths = demo_defaults,
      canonical_dir = demo_dirs, qml_load = (\<lambda>u. [0]), qml_warnings = (\<lambda>u. []),
      exec_result = Some 3\<rparr>"

definition accent_file :: path where
  "accent_file =
     \<lparr>anchor = ''/'', parts = [''opt'', ''d'' @ [CHR 0xE9] @ ''mo'', ''main.py'']\<rparr>"

definition env_accent :: env where
  "env_accent =
     \<lparr>sys_argv = [''main.py''], launcher_file = accent_file, fs_resolve = (\<lambda>p. p),
      fs_exists = (\<lambda>p. False), default_import_paths = demo_defaults,
      canonical_dir = (\<lambda>s. None), qml_load = (\<lambda>u. []), qml_warnings = (\<lambda>u. []),
      exec_result = Some 0\<rparr>"

definition ascii_only :: "string \<Rightarrow> python_exception option" where
  "ascii_only s =
     (if list_ex (\<lambda>c. (128::nat) \<le> of_char c) s then Some UnicodeEncodeError else None)"

text \<open>
  The calls every run makes before it looks for \<^verbatim>\<open>Main.qml\<close>, in their order,
  and the URL the launcher asks the engine to load.
\<close>

definition startup_events :: "env \<Rightarrow> event list" where
  "startup_events ev =
     [SetAttribute AA_ShareOpenGLContexts,
      SetDefaultFormat requested_format,
      NewApplication (sys_argv ev),
      SetApplicationName ''Liquid Glass Demo'',
      SetOrganizationName ''LiquidGlass'',
      SetOrganizationDomain ''liquidglass.demo'',
      NewEngine,
      AddImportPath (path_str (qml_dir ev)),
      AddImportPath (path_str (components_dir ev))]"

definition root_url :: "env \<Rightarrow> qurl" where
  "root_url ev = QUrl_fromLocalFile (path_str (main_qml ev))"

definition demo_identity :: "env \<Rightarrow> gui_application" where
  "demo_identity ev =
     \<lparr>app_argv = sys_argv ev, applicationName = ''Liquid Glass Demo'',
      organizationName = ''LiquidGlass'', organizationDomain = ''liquidglass.demo''\<rparr>"

text \<open>
  The process state once the startup calls are made, for a process that started as
  \<open>world_with f\<close>.
\<close>

definition ready_world :: "env \<Rightarrow> (string \<Rightarrow> python_exception option) \<Rightarrow> world" where
  "ready_world ev f =
     \<lparr>attributes = {AA_ShareOpenGLContexts}, defaultFormat = requested_format,
      application = Some (demo_identity ev),
      engine = Some \<lparr>importPaths = engine_import_paths ev, rootObjects = []\<rparr>,
      stdout = [], stderr = [], stdout_fault = f, trace = startup_events ev\<rparr>"

section \<open>Properties\<close>

subsection \<open>The three ways a run ends\<close>

lemmas call_defs =
  QCoreApplication_setAttribute_def setup_opengl_def QSurfaceFormat_setDefaultFormat_def
  QSurfaceFormat_new_def setVersion_def setProfile_def setSamples_def setSwapInterval_def
  QGuiApplication_new_def setApplicationName_def setOrganizationName_def
  setOrganizationDomain_def QQmlApplicationEngine_new_def addImportPath_def
  engine_load_def engine_rootObjects_def print_def app_exec_def log_event_def
  QUrl_fromLocalFile_def

lemmas name_defs =
  app_dir_def qml_dir_def components_dir_def main_qml_def root_url_def
  not_found_message_def load_failed_message_def requested_format_def
  startup_events_def demo_identity_def engine_import_paths_def ready_world_def

lemmas sample_defs =
  env_missing_def env_no_main_def env_broken_def env_ok_def env_exit3_def env_accent_def
  demo_file_def accent_file_def demo_defaults_def parent_def joinpath_def path_str_def

lemma world0_with: "world0 = world_with (\<lambda>s. None)"
  by (simp add: world_with_def world0_def)

lemma main_root_missing_with:
  assumes "\<not> fs_exists ev (main_qml ev)"
  shows "main ev (world_with f) =
    (case f (not_found_message ev) of
       Some e \<Rightarrow> (Inl e, ready_world ev f)
     | None \<Rightarrow> (Inr (Some 1),
         (ready_world ev f)\<lparr>stdout := [not_found_message ev],
           trace := startup_events ev @ [Print (not_found_message ev)]\<rparr>))"
  using assms
  by (simp add: main_def Let_def call_defs name_defs world_with_def world0_def
      split: option.split)

lemma main_load_failed_with:
  assumes "fs_exists ev (main_qml ev)" and "qml_load ev (root_url ev) = []"
  shows "main ev (world_with f) =
    (case f load_failed_message of
       Some e \<Rightarrow> (Inl e,
         (ready_world ev f)\<lparr>stderr := qml_warnings ev (root_url ev),
           trace := startup_events ev @ [Load (root_url ev)]\<rparr>)
     | None \<Rightarrow> (Inr (Some 1),
         (ready_world ev f)\<lparr>stdout := [load_failed_message],
           stderr := qml_warnings ev (root_url ev),
           trace := startup_events ev @ [Load (root_url ev), Print load_failed_message]\<rparr>))"
  using assms
  by (simp add: main_def Let_def call_defs name_defs world_with_def world0_def
      split: option.split)

lemma main_loaded_with:
  assumes "fs_exists ev (main_qml ev)" and "qml_load ev (root_url ev) \<noteq> []"
  shows "main ev (world_with f) =
    (Inr (exec_result ev),
     (ready_world ev f)\<lparr>
       engine := Some \<lparr>importPaths = engine_import_paths ev,
         rootObjects = qml_load ev (root_url ev)\<rparr>,
       stderr := qml_warnings ev (root_url ev),
       trace := startup_events ev @ [Load (root_url ev), Exec]\<rparr>)"
  using assms
  by (simp add: main_def Let_def call_defs name_defs world_with_def world0_def)

lemma main_root_missing:
  assumes "\<not> fs_exists ev (main_qml ev)"
  shows "main ev world0 =
    (Inr (Some 1),
     (ready_world ev (\<lambda>s. None))\<lparr>stdout := [not_found_message ev],
       trace := startup_events ev @ [Print (not_found_message ev)]\<rparr>)"
  using main_root_missing_with [OF assms, of "\<lambda>s. None"] by (simp add: world0_with)

lemma main_load_failed:
  assumes "fs_exists ev (main_qml ev)" and "qml_load ev (root_url ev) = []"
  shows "main ev world0 =
    (Inr (Some 1),
     (ready_world ev (\<lambda>s. None))\<lparr>stdout := [load_failed_message],
       stderr := qml_warnings ev (root_url ev),
       trace := startup_events ev @ [Load (root_url ev), Print load_failed_message]\<rparr>)"
  using main_load_failed_with [OF assms, of "\<lambda>s. None"] by (simp add: world0_with)

lemma main_loaded:
  assumes "fs_exists ev (main_qml ev)" and "qml_load ev (root_url ev) \<noteq> []"
  shows "main ev world0 =
    (Inr (exec_result ev),
     (ready_world ev (\<lambda>s. None))\<lparr>
       engine := Some \<lparr>importPaths = engine_import_paths ev,
         rootObjects = qml_load ev (root_url ev)\<rparr>,
       stderr := qml_warnings ev (root_url ev),
       trace := startup_events ev @ [Load (root_url ev), Exec]\<rparr>)"
  using main_loaded_with [OF assms, of "\<lambda>s. None"] by (simp add: world0_with)

lemma main_trace:
  "trace (snd (main ev world0)) =
     startup_events ev @
     (if \<not> fs_exists ev (main_qml ev) then [Print (not_found_message ev)]
      else if qml_load ev (root_url ev) = []
           then [Load (root_url ev), Print load_failed_message]
           else [Load (root_url ev), Exec])"
  by (simp add: main_root_missing main_load_failed main_loaded)

lemma main_globals:
  "attributes (snd (main ev world0)) = {AA_ShareOpenGLContexts}"
  "defaultFormat (snd (main ev world0)) = requested_format"
  "application (snd (main ev world0)) = Some (demo_identity ev)"
proof -
  let ?w = "snd (main ev world0)"
  have "attributes ?w = {AA_ShareOpenGLContexts} \<and> defaultFormat ?w = requested_format \<and>
        application ?w = Some (demo_identity ev)"
  proof (cases "fs_exists ev (main_qml ev)")
    case False
    then show ?thesis by (simp add: main_root_missing ready_world_def)
  next
    case True
    show ?thesis
    proof (cases "qml_load ev (root_url ev) = []")
      case True
      with \<open>fs_exists ev (main_qml ev)\<close> show ?thesis
        by (simp add: main_load_failed ready_world_def)
    next
      case False
      with \<open>fs_exists ev (main_qml ev)\<close> show ?thesis
        by (simp add: main_loaded ready_world_def)
    qed
  qed
  then show "attributes ?w = {AA_ShareOpenGLContexts}"
    and "defaultFormat ?w = requested_format"
    and "application ?w = Some (demo_identity ev)"
    by simp_all
qed

lemma messages_differ: "not_found_message ev \<noteq> load_failed_message"
  by (simp add: not_found_message_def load_failed_message_def)

lemma join_segments_last: "s \<noteq> [] \<Longrightarrow> join_segments (ps @ [s]) \<noteq> []"
  by (induction ps rule: join_segments.induct) auto

lemma path_str_joinpath: "s \<noteq> [] \<Longrightarrow> path_str (joinpath p s) \<noteq> []"
  by (simp add: path_str_def joinpath_def join_segments_last)

lemma sample_paths:
  "path_str (qml_dir env_missing) = ''/opt/demo/qml''"
  "path_str (components_dir env_missing) = ''/opt/demo/qml/components''"
  "path_str (main_qml env_missing) = ''/opt/demo/qml/Main.qml''"
  "path_str (qml_dir env_no_main) = ''/opt/demo/qml''"
  "path_str (components_dir env_no_main) = ''/opt/demo/qml/components''"
  "path_str (main_qml env_broken) = ''/opt/demo/qml/Main.qml''"
  "path_str (main_qml env_ok) = ''/opt/demo/qml/Main.qml''"
  "path_str (main_qml env_exit3) = ''/opt/demo/qml/Main.qml''"
  by (simp_all add: sample_defs app_dir_def qml_dir_def components_dir_def main_qml_def)

lemma failure_cases:
  "root_missing ev \<Longrightarrow> f (not_found_message ev) = None \<Longrightarrow>
     fst (main ev (world_with f)) = Inr (Some 1) \<and>
     stdout (snd (main ev (world_with f))) = [not_found_message ev]"
  "root_missing ev \<Longrightarrow> f (not_found_message ev) = Some e \<Longrightarrow>
     fst (main ev (world_with f)) = Inl e"
  "load_failed ev \<Longrightarrow> f load_failed_message = None \<Longrightarrow>
     fst (main ev (world_with f)) = Inr (Some 1) \<and>
     stdout (snd (main ev (world_with f))) = [load_failed_message]"
  "load_failed ev \<Longrightarrow> f load_failed_message = Some e \<Longrightarrow>
     fst (main ev (world_with f)) = Inl e"
  "\<not> root_missing ev \<Longrightarrow> \<not> load_failed ev \<Longrightarrow>
     fst (main ev (world_with f)) = Inr (exec_result ev)"
  by (simp_all add: root_missing_def load_failed_def main_root_missing_with
      main_load_failed_with main_loaded_with root_url_def)

subsection \<open>The failure exits and the event loop\<close>

text \<open>
  C1. Whenever \<^verbatim>\<open>Main.qml\<close> does not exist in the UI-root directory, \<open>main\<close>
  prints a diagnostic that ends with the path it looked for, returns 1, and the event
  loop is never entered.
\<close>

theorem missing_root_exits_1:
  assumes "\<not> fs_exists ev (main_qml ev)"
  shows "fst (main ev world0) = Inr (Some 1) \<and>
         stdout (snd (main ev world0)) =
           [''Error: Main.qml not found at '' @ path_str (main_qml ev)] \<and>
         Exec \<notin> set (trace (snd (main ev world0)))"
  using assms
  by (simp add: main_root_missing not_found_message_def startup_events_def)

theorem missing_root_exits_1_witness:
  "\<not> fs_exists env_missing (main_qml env_missing) \<and>
   fst (main env_missing world0) = Inr (Some 1) \<and>
   stdout (snd (main env_missing world0)) =
     [''Error: Main.qml not found at /opt/demo/qml/Main.qml''] \<and>
   Exec \<notin> set (trace (snd (main env_missing world0)))"
proof -
  have absent: "\<not> fs_exists env_missing (main_qml env_missing)"
    by (simp add: env_missing_def)
  from missing_root_exits_1 [OF absent] absent show ?thesis
    by (simp add: sample_paths)
qed

text \<open>
  C2. Whenever \<^verbatim>\<open>Main.qml\<close> exists and the engine has no root object after the load
  the launcher requests, \<open>main\<close> prints a diagnostic, returns 1, and the event loop is
  never entered.
\<close>

theorem load_failure_exits_1:
  assumes "fs_exists ev (main_qml ev)"
    and "qml_load ev (QUrl_fromLocalFile (path_str (main_qml ev))) = []"
  shows "fst (main ev world0) = Inr (Some 1) \<and>
         stdout (snd (main ev world0)) = [''Error: Failed to load QML''] \<and>
         Load (QUrl_fromLocalFile (path_str (main_qml ev)))
           \<in> set (trace (snd (main ev world0))) \<and>
         engine_rootObjects (snd (main ev world0)) = [] \<and>
         Exec \<notin> set (trace (snd (main ev world0)))"
  using assms
  by (simp add: main_load_failed root_url_def load_failed_message_def
      startup_events_def engine_rootObjects_def ready_world_def)

theorem load_failure_exits_1_witness:
  "fs_exists env_broken (main_qml env_broken) \<and>
   qml_load env_broken (LocalFile ''/opt/demo/qml/Main.qml'') = [] \<and>
   fst (main env_broken world0) = Inr (Some 1) \<and>
   stdout (snd (main env_broken world0)) = [''Error: Failed to load QML''] \<and>
   Load (LocalFile ''/opt/demo/qml/Main.qml'') \<in> set (trace (snd (main env_broken world0))) \<and>
   engine_rootObjects (snd (main env_broken world0)) = [] \<and>
   Exec \<notin> set (trace (snd (main env_broken world0)))"
proof -
  have present: "fs_exists env_broken (main_qml env_broken)"
    by (simp add: env_broken_def)
  have no_roots: "qml_load env_broken
      (QUrl_fromLocalFile (path_str (main_qml env_broken))) = []"
    by (simp add: env_broken_def)
  have empty: "qml_load env_broken (LocalFile ''/opt/demo/qml/Main.qml'') = []"
    by (simp add: env_broken_def)
  from load_failure_exits_1 [OF present no_roots] present empty show ?thesis
    by (simp add: sample_paths QUrl_fromLocalFile_def)
qed

text \<open>
  C3. Whenever \<^verbatim>\<open>Main.qml\<close> exists and the load leaves at least one root object,
  \<open>main\<close> enters the event loop as its last call and its result is the result of the
  event loop: the same integer when the loop returns, no return when it does not.
\<close>

theorem loaded_returns_exec_result:
  assumes "fs_exists ev (main_qml ev)"
    and "qml_load ev (QUrl_fromLocalFile (path_str (main_qml ev))) \<noteq> []"
  shows "fst (main ev world0) = Inr (exec_result ev) \<and>
         last (trace (snd (main ev world0))) = Exec \<and>
         length (filter (\<lambda>e. e = Exec) (trace (snd (main ev world0)))) = 1"
  using assms by (simp add: main_loaded root_url_def startup_events_def)

theorem loaded_returns_exec_result_witness:
  "fs_exists env_exit3 (main_qml env_exit3) \<and>
   qml_load env_exit3 (LocalFile ''/opt/demo/qml/Main.qml'') \<noteq> [] \<and>
   exec_result env_exit3 = Some 3 \<and>
   fst (main env_exit3 world0) = Inr (Some 3) \<and>
   last (trace (snd (main env_exit3 world0))) = Exec"
proof -
  have present: "fs_exists env_exit3 (main_qml env_exit3)"
    by (simp add: env_exit3_def)
  have window: "qml_load env_exit3
      (QUrl_fromLocalFile (path_str (main_qml env_exit3))) \<noteq> []"
    by (simp add: env_exit3_def)
  have facts: "qml_load env_exit3 (LocalFile ''/opt/demo/qml/Main.qml'') \<noteq> []"
    "exec_result env_exit3 = Some 3"
    by (simp_all add: env_exit3_def)
  from loaded_returns_exec_result [OF present window] present facts show ?thesis
    by simp
qed

subsection \<open>The order of the calls\<close>

text \<open>
  C4. In every run the default surface format is installed before the application object
  is constructed, once, with version 3.3, the core profile, 4 samples and swap interval 1,
  and it is what the process holds when \<open>main\<close> is over.
\<close>

theorem default_format_before_application:
  "list_ex is_new_application (trace (snd (main ev world0))) \<and>
   filter is_set_default_format
       (before_first is_new_application (trace (snd (main ev world0)))) =
     [SetDefaultFormat \<lparr>majorVersion = 3, minorVersion = 3, profile = CoreProfile,
        samples = 4, swapInterval = 1\<rparr>] \<and>
   filter is_set_default_format
       (after_first is_new_application (trace (snd (main ev world0)))) = [] \<and>
   defaultFormat (snd (main ev world0)) =
     \<lparr>majorVersion = 3, minorVersion = 3, profile = CoreProfile,
      samples = 4, swapInterval = 1\<rparr>"
proof -
  show ?thesis
    by (simp add: main_globals main_trace startup_events_def before_first_def after_first_def
        requested_format_def)
qed

text \<open>
  C6. In every run, whichever way it ends, the shared-context attribute is set before
  the application object is constructed.
\<close>

theorem attribute_before_application:
  "list_ex is_new_application (trace (snd (main ev world0))) \<and>
   SetAttribute AA_ShareOpenGLContexts
     \<in> set (before_first is_new_application (trace (snd (main ev world0)))) \<and>
   AA_ShareOpenGLContexts \<in> attributes (snd (main ev world0))"
proof -
  show ?thesis
    by (simp add: main_globals main_trace startup_events_def before_first_def)
qed

text \<open>
  C5. In every run the directories registered on the engine before the load is requested
  are the UI-root directory and then its \<^verbatim>\<open>components\<close> subdirectory, both built
  from the resolved directory of the launcher's own file; when \<^verbatim>\<open>Main.qml\<close>
  exists the load is requested, and the engine holds what that load created.
\<close>

theorem import_paths_before_load:
  "registered_paths (before_first is_load (trace (snd (main ev world0)))) =
     [path_str (joinpath (fs_resolve ev (parent (launcher_file ev))) ''qml''),
      path_str (joinpath (joinpath (fs_resolve ev (parent (launcher_file ev))) ''qml'')
        ''components'')] \<and>
   (fs_exists ev (main_qml ev) \<longrightarrow>
      list_ex is_load (trace (snd (main ev world0))) \<and>
      engine_rootObjects (snd (main ev world0)) =
        qml_load ev (QUrl_fromLocalFile (path_str (main_qml ev))))"
proof -
  have dirs: "qml_dir ev = joinpath (fs_resolve ev (parent (launcher_file ev))) ''qml''"
    "components_dir ev =
       joinpath (joinpath (fs_resolve ev (parent (launcher_file ev))) ''qml'') ''components''"
    by (simp_all add: components_dir_def qml_dir_def app_dir_def)
  have before: "registered_paths (before_first is_load (trace (snd (main ev world0)))) =
      [path_str (qml_dir ev), path_str (components_dir ev)]"
    by (simp add: main_trace startup_events_def before_first_def)
  have at_load: "list_ex is_load (trace (snd (main ev world0))) \<and>
      engine_rootObjects (snd (main ev world0)) = qml_load ev (root_url ev)"
    if "fs_exists ev (main_qml ev)"
  proof (cases "qml_load ev (root_url ev) = []")
    case True
    with that show ?thesis
      by (simp add: main_load_failed engine_rootObjects_def ready_world_def)
  next
    case False
    with that show ?thesis
      by (simp add: main_loaded engine_rootObjects_def ready_world_def)
  qed
  from before at_load show ?thesis
    unfolding dirs root_url_def by blast
qed

theorem import_paths_before_load_witness:
  "fs_exists env_ok (main_qml env_ok) \<and>
   registered_paths (before_first is_load (trace (snd (main env_ok world0)))) =
     [''/opt/demo/qml'', ''/opt/demo/qml/components''] \<and>
   registered_paths (before_first is_load (trace (snd (main env_missing world0)))) =
     [''/opt/demo/qml'', ''/opt/demo/qml/components''] \<and>
   list_ex is_load (trace (snd (main env_ok world0))) \<and>
   engine_rootObjects (snd (main env_ok world0)) = [0]"
proof -
  have present: "fs_exists env_ok (main_qml env_ok)"
    by (simp add: env_ok_def)
  have dirs: "fs_resolve env_ok (parent (launcher_file env_ok)) =
      \<lparr>anchor = ''/'', parts = [''opt'', ''demo'']\<rparr>"
    "fs_resolve env_missing (parent (launcher_file env_missing)) =
      \<lparr>anchor = ''/'', parts = [''opt'', ''demo'']\<rparr>"
    by (simp_all add: sample_defs)
  from import_paths_before_load [of env_ok] import_paths_before_load [of env_missing]
    present
  show ?thesis
    unfolding dirs by (simp add: joinpath_def path_str_def env_ok_def)
qed

text \<open>
  C7. In every run the three calls that follow the construction of the application
  object set its name to "Liquid Glass Demo", its organization to "LiquidGlass" and its
  domain to "liquidglass.demo"; the launcher makes no other call that sets them, before
  or after, and these are the values the application object holds when \<open>main\<close> is over.
\<close>

theorem identity_after_construction:
  "take 3 (after_first is_new_application (trace (snd (main ev world0)))) =
     [SetApplicationName ''Liquid Glass Demo'',
      SetOrganizationName ''LiquidGlass'',
      SetOrganizationDomain ''liquidglass.demo''] \<and>
   filter is_identity_setter
       (drop 3 (after_first is_new_application (trace (snd (main ev world0))))) = [] \<and>
   filter is_identity_setter
       (before_first is_new_application (trace (snd (main ev world0)))) = [] \<and>
   application (snd (main ev world0)) =
     Some \<lparr>app_argv = sys_argv ev, applicationName = ''Liquid Glass Demo'',
       organizationName = ''LiquidGlass'', organizationDomain = ''liquidglass.demo''\<rparr>"
  by (simp add: main_globals main_trace startup_events_def before_first_def
      after_first_def demo_identity_def)

subsection \<open>Exit codes and exceptions\<close>

text \<open>
  C8, as stated, fails twice. With a \<^verbatim>\<open>Main.qml\<close> that loads and an event loop
  that ends with 3, \<open>main\<close> returns 3 although neither failure condition holds. And with
  no \<^verbatim>\<open>Main.qml\<close>, a launcher directory with an accented name and a standard
  output that encodes ASCII only, the diagnostic cannot be printed and the
  \<^verbatim>\<open>UnicodeEncodeError\<close> of \<^verbatim>\<open>print\<close> leaves \<open>main\<close>.
\<close>

theorem nonzero_exit_without_failure:
  "fst (main env_exit3 world0) = Inr (Some 3) \<and>
   nonzero_exit (fst (main env_exit3 world0)) \<and>
   \<not> root_missing env_exit3 \<and> \<not> load_failed env_exit3 \<and>
   root_missing env_accent \<and>
   fst (main env_accent (world_with ascii_only)) = Inl UnicodeEncodeError"
proof -
  have ok: "\<not> root_missing env_exit3" "\<not> load_failed env_exit3"
    by (simp_all add: root_missing_def load_failed_def env_exit3_def)
  then have "fst (main env_exit3 (world_with (\<lambda>s. None))) = Inr (exec_result env_exit3)"
    by (rule failure_cases(5))
  then have three: "fst (main env_exit3 world0) = Inr (Some 3)"
    by (simp add: world0_with env_exit3_def)
  have absent: "root_missing env_accent"
    by (simp add: root_missing_def env_accent_def)
  have "not_found_message env_accent =
      ''Error: Main.qml not found at /opt/d'' @ [CHR 0xE9] @ ''mo/qml/Main.qml''"
    by (simp add: sample_defs name_defs)
  then have refused: "ascii_only (not_found_message env_accent) = Some UnicodeEncodeError"
    by (simp add: ascii_only_def)
  from absent refused have "fst (main env_accent (world_with ascii_only)) = Inl UnicodeEncodeError"
    by (rule failure_cases(2))
  with ok three absent show ?thesis by (simp add: nonzero_exit_def)
qed

text \<open>
  C8, amended. In each of the two failure conditions (no \<^verbatim>\<open>Main.qml\<close>; no root
  object after the load) \<open>main\<close> prints its diagnostic and returns 1; the two outcomes
  have the same code and differ in the text printed. \<open>main\<close> raises nothing itself and
  catches nothing: on a failure path an exception leaves it exactly when
  \<^verbatim>\<open>print\<close> raises it, and then nothing is returned. In every other run the result
  of \<open>main\<close> is the result of the event loop. So \<open>main\<close> returns a non-zero code
  exactly when a failure condition holds and its diagnostic is printed, or no failure
  condition holds and the event loop returns a non-zero code.
\<close>

theorem exit_code_taxonomy:
  "(root_missing ev \<longrightarrow>
      (f (not_found_message ev) = None \<longrightarrow>
         fst (main ev (world_with f)) = Inr (Some 1) \<and>
         stdout (snd (main ev (world_with f))) = [not_found_message ev]) \<and>
      (\<forall>e. f (not_found_message ev) = Some e \<longrightarrow>
         fst (main ev (world_with f)) = Inl e)) \<and>
   (load_failed ev \<longrightarrow>
      (f load_failed_message = None \<longrightarrow>
         fst (main ev (world_with f)) = Inr (Some 1) \<and>
         stdout (snd (main ev (world_with f))) = [load_failed_message]) \<and>
      (\<forall>e. f load_failed_message = Some e \<longrightarrow>
         fst (main ev (world_with f)) = Inl e)) \<and>
   not_found_message ev \<noteq> load_failed_message \<and>
   (\<not> root_missing ev \<and> \<not> load_failed ev \<longrightarrow>
      fst (main ev (world_with f)) = Inr (exec_result ev)) \<and>
   (nonzero_exit (fst (main ev (world_with f))) \<longleftrightarrow>
      root_missing ev \<and> f (not_found_message ev) = None \<or>
      load_failed ev \<and> f load_failed_message = None \<or>
      \<not> root_missing ev \<and> \<not> load_failed ev \<and> nonzero_exit (Inr (exec_result ev)))"
proof -
  let ?r = "fst (main ev (world_with f))"
  have excl: "\<not> (root_missing ev \<and> load_failed ev)"
    by (simp add: root_missing_def load_failed_def)
  have a: "root_missing ev \<Longrightarrow> f (not_found_message ev) = None \<Longrightarrow>
      ?r = Inr (Some 1) \<and> stdout (snd (main ev (world_with f))) = [not_found_message ev]"
    by (rule failure_cases(1))
  have a': "root_missing ev \<Longrightarrow> f (not_found_message ev) = Some e \<Longrightarrow> ?r = Inl e" for e
    by (rule failure_cases(2))
  have b: "load_failed ev \<Longrightarrow> f load_failed_message = None \<Longrightarrow>
      ?r = Inr (Some 1) \<and> stdout (snd (main ev (world_with f))) = [load_failed_message]"
    by (rule failure_cases(3))
  have b': "load_failed ev \<Longrightarrow> f load_failed_message = Some e \<Longrightarrow> ?r = Inl e" for e
    by (rule failure_cases(4))
  have c: "\<not> root_missing ev \<Longrightarrow> \<not> load_failed ev \<Longrightarrow> ?r = Inr (exec_result ev)"
    by (rule failure_cases(5))
  have d: "nonzero_exit ?r \<longleftrightarrow>
      root_missing ev \<and> f (not_found_message ev) = None \<or>
      load_failed ev \<and> f load_failed_message = None \<or>
      \<not> root_missing ev \<and> \<not> load_failed ev \<and> nonzero_exit (Inr (exec_result ev))"
  proof (cases "root_missing ev")
    case True
    then have nl: "\<not> load_failed ev" using excl by blast
    show ?thesis
    proof (cases "f (not_found_message ev)")
      case None
      with True a have "?r = Inr (Some 1)" by blast
      with True None nl show ?thesis by (simp add: nonzero_exit_def)
    next
      case (Some e)
      with True a' have "?r = Inl e" by blast
      with True Some nl show ?thesis by (simp add: nonzero_exit_def)
    qed
  next
    case False
    show ?thesis
    proof (cases "load_failed ev")
      case True
      show ?thesis
      proof (cases "f load_failed_message")
        case None
        with True b have "?r = Inr (Some 1)" by blast
        with True None \<open>\<not> root_missing ev\<close> show ?thesis by (simp add: nonzero_exit_def)
      next
        case (Some e)
        with True b' have "?r = Inl e" by blast
        with True Some \<open>\<not> root_missing ev\<close> show ?thesis by (simp add: nonzero_exit_def)
      qed
    next
      case nf: False
      with False c have "?r = Inr (exec_result ev)" by blast
      with False nf show ?thesis by simp
    qed
  qed
  from a a' b b' c d messages_differ [of ev] show ?thesis by blast
qed

theorem exit_code_taxonomy_witness:
  "root_missing env_missing \<and>
   fst (main env_missing world0) = Inr (Some 1) \<and>
   stdout (snd (main env_missing world0)) =
     [''Error: Main.qml not found at /opt/demo/qml/Main.qml''] \<and>
   load_failed env_broken \<and>
   fst (main env_broken world0) = Inr (Some 1) \<and>
   stdout (snd (main env_broken world0)) = [''Error: Failed to load QML''] \<and>
   \<not> root_missing env_ok \<and> \<not> load_failed env_ok \<and>
   fst (main env_ok world0) = Inr (Some 0) \<and>
   \<not> nonzero_exit (fst (main env_ok world0)) \<and>
   \<not> root_missing env_exit3 \<and> \<not> load_failed env_exit3 \<and>
   nonzero_exit (fst (main env_exit3 world0)) \<and>
   root_missing env_accent \<and>
   ascii_only (not_found_message env_accent) = Some UnicodeEncodeError \<and>
   fst (main env_accent (world_with ascii_only)) = Inl UnicodeEncodeError \<and>
   \<not> nonzero_exit (fst (main env_accent (world_with ascii_only)))"
proof -
  have conds: "root_missing env_missing" "load_failed env_broken"
    "\<not> root_missing env_ok" "\<not> load_failed env_ok"
    "\<not> root_missing env_exit3" "\<not> load_failed env_exit3"
    "root_missing env_accent" "\<not> load_failed env_accent"
    by (simp_all add: root_missing_def load_failed_def env_missing_def env_broken_def
        env_ok_def env_exit3_def env_accent_def)
  have shown: "not_found_message env_missing =
      ''Error: Main.qml not found at /opt/demo/qml/Main.qml''"
    by (simp add: sample_paths not_found_message_def)
  have "not_found_message env_accent =
      ''Error: Main.qml not found at /opt/d'' @ [CHR 0xE9] @ ''mo/qml/Main.qml''"
    by (simp add: sample_defs name_defs)
  then have refused: "ascii_only (not_found_message env_accent) = Some UnicodeEncodeError"
    by (simp add: ascii_only_def)
  have loops: "exec_result env_ok = Some 0" "exec_result env_exit3 = Some 3"
    by (simp_all add: env_ok_def env_exit3_def)
  from exit_code_taxonomy [of env_missing "\<lambda>s. None"]
    exit_code_taxonomy [of env_broken "\<lambda>s. None"]
    exit_code_taxonomy [of env_ok "\<lambda>s. None"]
    exit_code_taxonomy [of env_exit3 "\<lambda>s. None"]
    exit_code_taxonomy [of env_accent ascii_only]
    conds shown refused loops
  show ?thesis
    by (simp add: world0_with [symmetric] load_failed_message_def nonzero_exit_def)
qed

subsection \<open>Side effects and diagnostics\<close>

text \<open>
  C9. When \<^verbatim>\<open>Main.qml\<close> does not exist, the run that returns 1 has by then set the
  shared-context attribute, installed the default surface format, constructed the
  application object and the engine and made both \<^verbatim>\<open>addImportPath\<close> calls: all of
  these calls precede the diagnostic, and the process state \<open>main\<close> leaves behind
  differs from the one it started in. The engine's import path list is what the toolkit
  makes of the two calls: with both directories present their canonical paths head the
  list, the \<^verbatim>\<open>components\<close> directory first, and a directory that does not exist
  leaves the list as it was.
\<close>

theorem missing_root_keeps_side_effects:
  assumes "\<not> fs_exists ev (main_qml ev)"
  shows "fst (main ev world0) = Inr (Some 1) \<and>
         before_first is_print (trace (snd (main ev world0))) =
           [SetAttribute AA_ShareOpenGLContexts,
            SetDefaultFormat \<lparr>majorVersion = 3, minorVersion = 3, profile = CoreProfile,
              samples = 4, swapInterval = 1\<rparr>,
            NewApplication (sys_argv ev),
            SetApplicationName ''Liquid Glass Demo'',
            SetOrganizationName ''LiquidGlass'',
            SetOrganizationDomain ''liquidglass.demo'',
            NewEngine,
            AddImportPath (path_str (qml_dir ev)),
            AddImportPath (path_str (components_dir ev))] \<and>
         AA_ShareOpenGLContexts \<in> attributes (snd (main ev world0)) \<and>
         AA_ShareOpenGLContexts \<notin> attributes world0 \<and>
         defaultFormat (snd (main ev world0)) =
           \<lparr>majorVersion = 3, minorVersion = 3, profile = CoreProfile,
            samples = 4, swapInterval = 1\<rparr> \<and>
         defaultFormat (snd (main ev world0)) \<noteq> defaultFormat world0 \<and>
         application (snd (main ev world0)) \<noteq> None \<and>
         application world0 = None \<and>
         engine (snd (main ev world0)) =
           Some \<lparr>importPaths =
               add_import_path ev (path_str (components_dir ev))
                 (add_import_path ev (path_str (qml_dir ev)) (default_import_paths ev)),
             rootObjects = []\<rparr> \<and>
         engine world0 = None \<and>
         (\<forall>q c. canonical_dir ev (path_str (qml_dir ev)) = Some q \<and>
                canonical_dir ev (path_str (components_dir ev)) = Some c \<longrightarrow>
            engine (snd (main ev world0)) =
              Some \<lparr>importPaths = c # remove1 c (q # remove1 q (default_import_paths ev)),
                rootObjects = []\<rparr>) \<and>
         (canonical_dir ev (path_str (qml_dir ev)) = None \<and>
          canonical_dir ev (path_str (components_dir ev)) = None \<longrightarrow>
            engine (snd (main ev world0)) =
              Some \<lparr>importPaths = default_import_paths ev, rootObjects = []\<rparr>)"
proof -
  have fresh: "AA_ShareOpenGLContexts \<notin> attributes world0"
    "defaultFormat world0 \<noteq> requested_format"
    "application world0 = None" "engine world0 = None"
    by (simp_all add: world0_def QSurfaceFormat_new_def requested_format_def)
  have run: "main ev world0 =
      (Inr (Some 1),
       (ready_world ev (\<lambda>s. None))\<lparr>stdout := [not_found_message ev],
         trace := startup_events ev @ [Print (not_found_message ev)]\<rparr>)"
    using assms by (rule main_root_missing)
  have calls: "before_first is_print (startup_events ev @ [Print (not_found_message ev)]) =
      startup_events ev"
    by (simp add: startup_events_def before_first_def)
  have named: "path_str (qml_dir ev) \<noteq> []" "path_str (components_dir ev) \<noteq> []"
    by (simp_all add: qml_dir_def components_dir_def path_str_joinpath)
  have both: "engine_import_paths ev = c # remove1 c (q # remove1 q (default_import_paths ev))"
    if "canonical_dir ev (path_str (qml_dir ev)) = Some q"
      and "canonical_dir ev (path_str (components_dir ev)) = Some c" for q c
    using that named by (simp add: engine_import_paths_def add_import_path_def)
  have neither: "engine_import_paths ev = default_import_paths ev"
    if "canonical_dir ev (path_str (qml_dir ev)) = None"
      and "canonical_dir ev (path_str (components_dir ev)) = None"
    using that by (simp add: engine_import_paths_def add_import_path_def)
  have state: "engine (snd (main ev world0)) =
      Some \<lparr>importPaths = engine_import_paths ev, rootObjects = []\<rparr>"
    "attributes (snd (main ev world0)) = {AA_ShareOpenGLContexts}"
    "defaultFormat (snd (main ev world0)) = requested_format"
    "application (snd (main ev world0)) = Some (demo_identity ev)"
    "fst (main ev world0) = Inr (Some 1)"
    "before_first is_print (trace (snd (main ev world0))) = startup_events ev"
    unfolding run by (simp_all add: ready_world_def calls)
  have unfolded: "engine_import_paths ev =
      add_import_path ev (path_str (components_dir ev))
        (add_import_path ev (path_str (qml_dir ev)) (default_import_paths ev))"
    by (simp add: engine_import_paths_def)
  from fresh both neither show ?thesis
    unfolding state unfolded [symmetric]
    by (simp add: startup_events_def requested_format_def)
qed

theorem missing_root_keeps_side_effects_witness:
  "\<not> fs_exists env_no_main (main_qml env_no_main) \<and>
   canonical_dir env_no_main ''/opt/demo/qml'' = Some ''/opt/demo/qml'' \<and>
   canonical_dir env_no_main ''/opt/demo/qml/components'' =
     Some ''/opt/demo/qml/components'' \<and>
   fst (main env_no_main world0) = Inr (Some 1) \<and>
   AA_ShareOpenGLContexts \<in> attributes (snd (main env_no_main world0)) \<and>
   defaultFormat (snd (main env_no_main world0)) =
     \<lparr>majorVersion = 3, minorVersion = 3, profile = CoreProfile,
      samples = 4, swapInterval = 1\<rparr> \<and>
   application (snd (main env_no_main world0)) \<noteq> None \<and>
   engine (snd (main env_no_main world0)) =
     Some \<lparr>importPaths = [''/opt/demo/qml/components'', ''/opt/demo/qml'',
         ''/usr/bin'', ''qrc:/qt/qml'', ''/usr/lib/qt6/qml''],
       rootObjects = []\<rparr> \<and>
   \<not> fs_exists env_missing (main_qml env_missing) \<and>
   canonical_dir env_missing ''/opt/demo/qml'' = None \<and>
   canonical_dir env_missing ''/opt/demo/qml/components'' = None \<and>
   fst (main env_missing world0) = Inr (Some 1) \<and>
   engine (snd (main env_missing world0)) =
     Some \<lparr>importPaths = [''/usr/bin'', ''qrc:/qt/qml'', ''/usr/lib/qt6/qml''],
       rootObjects = []\<rparr>"
proof -
  have absent: "\<not> fs_exists env_no_main (main_qml env_no_main)"
    "\<not> fs_exists env_missing (main_qml env_missing)"
    by (simp_all add: env_no_main_def env_missing_def)
  have dirs: "canonical_dir env_no_main ''/opt/demo/qml'' = Some ''/opt/demo/qml''"
    "canonical_dir env_no_main ''/opt/demo/qml/components'' =
       Some ''/opt/demo/qml/components''"
    "canonical_dir env_missing ''/opt/demo/qml'' = None"
    "canonical_dir env_missing ''/opt/demo/qml/components'' = None"
    by (simp_all add: env_no_main_def env_missing_def demo_dirs_def)
  have defaults: "default_import_paths env_no_main =
      [''/usr/bin'', ''qrc:/qt/qml'', ''/usr/lib/qt6/qml'']"
    "default_import_paths env_missing =
      [''/usr/bin'', ''qrc:/qt/qml'', ''/usr/lib/qt6/qml'']"
    by (simp_all add: env_no_main_def env_missing_def demo_defaults_def)
  from missing_root_keeps_side_effects [OF absent(1)]
    missing_root_keeps_side_effects [OF absent(2)] absent dirs
  show ?thesis
    by (simp add: sample_paths defaults add_import_path_def)
qed

text \<open>
  C10, as stated, fails on the load-failure path: for an empty \<^verbatim>\<open>Main.qml\<close> the
  toolkit logs two lines during the load, so the run puts three diagnostic lines out,
  two of them on standard error.
\<close>

theorem load_failure_logs_on_stderr:
  "load_failed env_broken \<and>
   stdout (snd (main env_broken world0)) = [''Error: Failed to load QML''] \<and>
   stderr (snd (main env_broken world0)) =
     [''QQmlApplicationEngine failed to load component'',
      ''file:///opt/demo/qml/Main.qml: File is empty''] \<and>
   length (stdout (snd (main env_broken world0)) @ stderr (snd (main env_broken world0))) = 3"
proof -
  have present: "fs_exists env_broken (main_qml env_broken)"
    and no_roots: "qml_load env_broken (root_url env_broken) = []"
    and logged: "qml_warnings env_broken (root_url env_broken) =
      [''QQmlApplicationEngine failed to load component'',
       ''file:///opt/demo/qml/Main.qml: File is empty'']"
    by (simp_all add: env_broken_def)
  have failed: "load_failed env_broken"
    by (simp add: load_failed_def env_broken_def)
  have run: "main env_broken world0 =
      (Inr (Some 1),
       (ready_world env_broken (\<lambda>s. None))\<lparr>stdout := [load_failed_message],
         stderr := qml_warnings env_broken (root_url env_broken),
         trace := startup_events env_broken @
           [Load (root_url env_broken), Print load_failed_message]\<rparr>)"
    by (rule main_load_failed [OF present no_roots])
  from failed logged show ?thesis
    by (simp add: run load_failed_message_def)
qed

text \<open>
  C10, amended. Both diagnostics of the launcher are written to standard output, each by
  the one \<^verbatim>\<open>print\<close> call of its failure path, and the launcher writes nothing to
  standard error. When \<^verbatim>\<open>Main.qml\<close> does not exist that line is all the run puts
  out. When the load leaves no root object, standard error holds what the toolkit logged
  during the load, and nothing else.
\<close>

theorem launcher_diagnostics_on_stdout:
  "(\<not> fs_exists ev (main_qml ev) \<longrightarrow>
      stdout (snd (main ev world0)) =
        [''Error: Main.qml not found at '' @ path_str (main_qml ev)] \<and>
      stderr (snd (main ev world0)) = [] \<and>
      length (filter is_print (trace (snd (main ev world0)))) = 1) \<and>
   (fs_exists ev (main_qml ev) \<and>
    qml_load ev (QUrl_fromLocalFile (path_str (main_qml ev))) = [] \<longrightarrow>
      stdout (snd (main ev world0)) = [''Error: Failed to load QML''] \<and>
      stderr (snd (main ev world0)) =
        qml_warnings ev (QUrl_fromLocalFile (path_str (main_qml ev))) \<and>
      length (filter is_print (trace (snd (main ev world0)))) = 1)"
  by (simp add: main_root_missing main_load_failed root_url_def startup_events_def
      not_found_message_def load_failed_message_def ready_world_def)

theorem launcher_diagnostics_on_stdout_witness:
  "\<not> fs_exists env_missing (main_qml env_missing) \<and>
   stdout (snd (main env_missing world0)) =
     [''Error: Main.qml not found at /opt/demo/qml/Main.qml''] \<and>
   stderr (snd (main env_missing world0)) = [] \<and>
   fs_exists env_broken (main_qml env_broken) \<and>
   qml_load env_broken (LocalFile ''/opt/demo/qml/Main.qml'') = [] \<and>
   stdout (snd (main env_broken world0)) = [''Error: Failed to load QML''] \<and>
   stderr (snd (main env_broken world0)) =
     [''QQmlApplicationEngine failed to load component'',
      ''file:///opt/demo/qml/Main.qml: File is empty'']"
proof -
  have absent: "\<not> fs_exists env_missing (main_qml env_missing)"
    by (simp add: env_missing_def)
  have present: "fs_exists env_broken (main_qml env_broken)"
    by (simp add: env_broken_def)
  have load: "qml_load env_broken (LocalFile ''/opt/demo/qml/Main.qml'') = []"
    "qml_warnings env_broken (LocalFile ''/opt/demo/qml/Main.qml'') =
      [''QQmlApplicationEngine failed to load component'',
       ''file:///opt/demo/qml/Main.qml: File is empty'']"
    by (simp_all add: env_broken_def)
  from launcher_diagnostics_on_stdout [of env_missing]
    launcher_diagnostics_on_stdout [of env_broken] absent present load
  show ?thesis
    by (simp add: sample_paths QUrl_fromLocalFile_def)
qed

end
